theory Spec2Isabelle
  imports Main "HOL-Library.Word"
begin

section \<open>constants.h: the enumerations\<close>

datatype Operand = one | imm8 | imm16 | imm32 | imm64 | reg | rm | al | ax | eax | rax | moff

text \<open>The enumerator \<open>OpEnc::O\<close> is written \<open>O_enc\<close>: \<open>O\<close> is HOL's relation composition.\<close>

datatype OpEnc = I | D | M | O_enc | NP | MI | M1 | MR | RM | RMI | OI

datatype Prefix = NONE | P66 | REXW | REX

datatype (plugins only: size) Mnemonic =
  MOV | LEA | ADD | ADC | SUB | SBB | MUL | IMUL | DIV | IDIV | INC | DEC
| AND | OR | XOR | NOT | NEG | CMP | TEST | SAL | SHL | SAR | SHR | RCL | RCR
| ROL | ROR | JMP | LOOP | JZ | JNZ | JA | JAE | JB | JBE | JG | JGE | JL | JLE
| JP | JNP | JO | JNO | JS | JC | JCXZ | JECXZ | CALL | RET | PUSH | POP
| MOVSB | MOVSW | MOVSD | REP | REPE | REPNE | CLD | STD | LODSB | LODSW | LODSD
| STOSB | STOSW | STOSD | SCASB | SCASW | SCASD | CMPSB | CMPSW | CMPSD | IN | OUT
| INSB | INSW | INSD | OUTSB | OUTSW | OUTSD | CBW | CWD | CWDE | CDQ | INT21
| LOCK | ENTER | LEAVE | NOP | UD2 | CPUID | XCHG | STC | CLC

text \<open>\<open>to_string(Mnemonic)\<close>: the enumerator's own name.\<close>

primrec to_string_Mnemonic :: "Mnemonic \<Rightarrow> string" where
  "to_string_Mnemonic MOV = ''MOV''"
| "to_string_Mnemonic LEA = ''LEA''"
| "to_string_Mnemonic ADD = ''ADD''"
| "to_string_Mnemonic ADC = ''ADC''"
| "to_string_Mnemonic SUB = ''SUB''"
| "to_string_Mnemonic SBB = ''SBB''"
| "to_string_Mnemonic MUL = ''MUL''"
| "to_string_Mnemonic IMUL = ''IMUL''"
| "to_string_Mnemonic DIV = ''DIV''"
| "to_string_Mnemonic IDIV = ''IDIV''"
| "to_string_Mnemonic INC = ''INC''"
| "to_string_Mnemonic DEC = ''DEC''"
| "to_string_Mnemonic AND = ''AND''"
| "to_string_Mnemonic OR = ''OR''"
| "to_string_Mnemonic XOR = ''XOR''"
| "to_string_Mnemonic NOT = ''NOT''"
| "to_string_Mnemonic NEG = ''NEG''"
| "to_string_Mnemonic CMP = ''CMP''"
| "to_string_Mnemonic TEST = ''TEST''"
| "to_string_Mnemonic SAL = ''SAL''"
| "to_string_Mnemonic SHL = ''SHL''"
| "to_string_Mnemonic SAR = ''SAR''"
| "to_string_Mnemonic SHR = ''SHR''"
| "to_string_Mnemonic RCL = ''RCL''"
| "to_string_Mnemonic RCR = ''RCR''"
| "to_string_Mnemonic ROL = ''ROL''"
| "to_string_Mnemonic ROR = ''ROR''"
| "to_string_Mnemonic JMP = ''JMP''"
| "to_string_Mnemonic LOOP = ''LOOP''"
| "to_string_Mnemonic JZ = ''JZ''"
| "to_string_Mnemonic JNZ = ''JNZ''"
| "to_string_Mnemonic JA = ''JA''"
| "to_string_Mnemonic JAE = ''JAE''"
| "to_string_Mnemonic JB = ''JB''"
| "to_string_Mnemonic JBE = ''JBE''"
| "to_string_Mnemonic JG = ''JG''"
| "to_string_Mnemonic JGE = ''JGE''"
| "to_string_Mnemonic JL = ''JL''"
| "to_string_Mnemonic JLE = ''JLE''"
| "to_string_Mnemonic JP = ''JP''"
| "to_string_Mnemonic JNP = ''JNP''"
| "to_string_Mnemonic JO = ''JO''"
| "to_string_Mnemonic JNO = ''JNO''"
| "to_string_Mnemonic JS = ''JS''"
| "to_string_Mnemonic JC = ''JC''"
| "to_string_Mnemonic JCXZ = ''JCXZ''"
| "to_string_Mnemonic JECXZ = ''JECXZ''"
| "to_string_Mnemonic CALL = ''CALL''"
| "to_string_Mnemonic RET = ''RET''"
| "to_string_Mnemonic PUSH = ''PUSH''"
| "to_string_Mnemonic POP = ''POP''"
| "to_string_Mnemonic MOVSB = ''MOVSB''"
| "to_string_Mnemonic MOVSW = ''MOVSW''"
| "to_string_Mnemonic MOVSD = ''MOVSD''"
| "to_string_Mnemonic REP = ''REP''"
| "to_string_Mnemonic REPE = ''REPE''"
| "to_string_Mnemonic REPNE = ''REPNE''"
| "to_string_Mnemonic CLD = ''CLD''"
| "to_string_Mnemonic STD = ''STD''"
| "to_string_Mnemonic LODSB = ''LODSB''"
| "to_string_Mnemonic LODSW = ''LODSW''"
| "to_string_Mnemonic LODSD = ''LODSD''"
| "to_string_Mnemonic STOSB = ''STOSB''"
| "to_string_Mnemonic STOSW = ''STOSW''"
| "to_string_Mnemonic STOSD = ''STOSD''"
| "to_string_Mnemonic SCASB = ''SCASB''"
| "to_string_Mnemonic SCASW = ''SCASW''"
| "to_string_Mnemonic SCASD = ''SCASD''"
| "to_string_Mnemonic CMPSB = ''CMPSB''"
| "to_string_Mnemonic CMPSW = ''CMPSW''"
| "to_string_Mnemonic CMPSD = ''CMPSD''"
| "to_string_Mnemonic IN = ''IN''"
| "to_string_Mnemonic OUT = ''OUT''"
| "to_string_Mnemonic INSB = ''INSB''"
| "to_string_Mnemonic INSW = ''INSW''"
| "to_string_Mnemonic INSD = ''INSD''"
| "to_string_Mnemonic OUTSB = ''OUTSB''"
| "to_string_Mnemonic OUTSW = ''OUTSW''"
| "to_string_Mnemonic OUTSD = ''OUTSD''"
| "to_string_Mnemonic CBW = ''CBW''"
| "to_string_Mnemonic CWD = ''CWD''"
| "to_string_Mnemonic CWDE = ''CWDE''"
| "to_string_Mnemonic CDQ = ''CDQ''"
| "to_string_Mnemonic INT21 = ''INT21''"
| "to_string_Mnemonic LOCK = ''LOCK''"
| "to_string_Mnemonic ENTER = ''ENTER''"
| "to_string_Mnemonic LEAVE = ''LEAVE''"
| "to_string_Mnemonic NOP = ''NOP''"
| "to_string_Mnemonic UD2 = ''UD2''"
| "to_string_Mnemonic CPUID = ''CPUID''"
| "to_string_Mnemonic XCHG = ''XCHG''"
| "to_string_Mnemonic STC = ''STC''"
| "to_string_Mnemonic CLC = ''CLC''"

text \<open>\<open>to_string(Operand)\<close>: eight enumerators have a case, the other four
  (\<open>imm64\<close>, \<open>al\<close>, \<open>ax\<close>, \<open>rax\<close>) fall to \<open>default\<close>.\<close>

fun to_string_Operand :: "Operand \<Rightarrow> string" where
  "to_string_Operand one = ''one''"
| "to_string_Operand imm8 = ''imm8''"
| "to_string_Operand imm16 = ''imm16''"
| "to_string_Operand imm32 = ''imm32''"
| "to_string_Operand reg = ''reg''"
| "to_string_Operand rm = ''rm''"
| "to_string_Operand eax = ''eax''"
| "to_string_Operand moff = ''moff''"
| "to_string_Operand _ = ''unknown''"

fun hasModrm :: "OpEnc \<Rightarrow> bool" where
  "hasModrm I = False"
| "hasModrm D = False"
| "hasModrm M = True"
| "hasModrm O_enc = False"
| "hasModrm NP = False"
| "hasModrm MI = True"
| "hasModrm M1 = True"
| "hasModrm MR = True"
| "hasModrm RM = True"
| "hasModrm RMI = True"
| "hasModrm OI = False"

definition PREFIX_INSTRUCTIONS_BYTES_SET :: "int set" where
  "PREFIX_INSTRUCTIONS_BYTES_SET = {0x0F, 0xF0, 0xF2, 0xF3}"

section \<open>What state.h takes from modrm.h and table.h\<close>

text \<open>Modelled from the spec: \<open>struct REX\<close> of modrm.h, which is not among the sources.
  The four flags of the REX byte \<open>0100|W|R|X|B\<close>; state.h reads \<open>rexW\<close>.\<close>

record REX =
  rexW :: bool
  rexR :: bool
  rexX :: bool
  rexB :: bool

text \<open>Modelled from the spec: \<open>struct ModRM\<close> of modrm.h, which is not among the sources.
  state.h reads \<open>modByte\<close>, \<open>hasSib\<close>, \<open>hasDisp8\<close> and \<open>hasDisp32\<close> (the last two are
  \<open>hasDisp8M\<close> and \<open>hasDisp32M\<close> here, the same names being fields of \<open>State\<close>);
  \<open>regByte\<close> and \<open>rmByte\<close> are the raw three-bit fields and \<open>rexM\<close> the REX flags the
  constructor is given.\<close>

record ModRM =
  modByte :: int
  regByte :: int
  rmByte :: int
  rexM :: REX
  hasSib :: bool
  hasDisp8M :: bool
  hasDisp32M :: bool

text \<open>Modelled from the spec: \<open>struct SIB\<close> of modrm.h, which is not among the sources.
  state.h reads \<open>baseByte\<close>, \<open>hasDisp8\<close> and \<open>hasDisp32\<close> (here \<open>hasDisp8S\<close>,
  \<open>hasDisp32S\<close>); \<open>modS\<close> and \<open>rexS\<close> keep the \<open>mod\<close> and the REX flags the
  constructor is given.\<close>

record SIB =
  scaleByte :: int
  indexByte :: int
  baseByte :: int
  modS :: int
  rexS :: REX
  hasDisp8S :: bool
  hasDisp32S :: bool

text \<open>Every way a decode can stop. The first four are the \<open>std::runtime_error\<close>s that
  state.h throws. \<open>OutOfBoundsRead i\<close> is not an exception: it marks the places where
  state.h indexes \<open>objectSource\<close> at a position \<open>i\<close> that is not below its size (or
  builds a range that ends past it), which C++ leaves undefined. \<open>EmptyRemOps\<close> marks
  \<open>remOps[0]\<close> on an empty vector, \<open>StdInvalidArgument\<close> and \<open>StdOutOfRange\<close> are
  what \<open>std::stoi\<close> and \<open>vector::at\<close> throw, and \<open>Other\<close> is left for the
  functions of modrm.h.\<close>

datatype error =
  UnknownOpcode Prefix int
| UnknownOperandForm Prefix Mnemonic int
| ExpectedModRM
| ExpectedSIB
| OutOfBoundsRead nat
| EmptyRemOps
| StdInvalidArgument
| StdOutOfRange
| Other string

text \<open>The declarations of table.h and modrm.h that state.h uses. Neither header is among
  the sources, so the decoder below takes them as a parameter: the three encoding tables,
  the four register-name tables, the operand classifiers, the constructors of \<open>REX\<close>,
  \<open>ModRM\<close> and \<open>SIB\<close> and their rendering methods (which may throw).\<close>

record Tables =
  TWO_BYTES_OPCODE_PREFIX :: "int set"
  OP_LOOKUP :: "Prefix \<times> int \<rightharpoonup> (int \<rightharpoonup> Mnemonic)"
  OPERAND_LOOKUP :: "Prefix \<times> Mnemonic \<times> int \<rightharpoonup> OpEnc \<times> string list \<times> Operand list"
  REGISTERS8 :: "string list"
  REGISTERS16 :: "string list"
  REGISTERS32 :: "string list"
  REGISTERS64 :: "string list"
  getRegVal :: "int \<Rightarrow> int"
  isA_REG :: "Operand \<Rightarrow> bool"
  isRM :: "Operand \<Rightarrow> bool"
  isREG :: "Operand \<Rightarrow> bool"
  isIMM :: "Operand \<Rightarrow> bool"
  is8Bit :: "Operand \<Rightarrow> bool"
  is16Bit :: "Operand \<Rightarrow> bool"
  is32Bit :: "Operand \<Rightarrow> bool"
  is64Bit :: "Operand \<Rightarrow> bool"
  newREX :: "int \<Rightarrow> REX"
  newModRM :: "int \<Rightarrow> REX \<Rightarrow> ModRM"
  newSIB :: "int \<Rightarrow> int \<Rightarrow> REX \<Rightarrow> SIB"
  getAddrMode :: "ModRM \<Rightarrow> Operand \<Rightarrow> string \<Rightarrow> string \<Rightarrow> error + string"
  getReg :: "ModRM \<Rightarrow> Operand \<Rightarrow> error + string"
  getAddr :: "SIB \<Rightarrow> Operand \<Rightarrow> string \<Rightarrow> string \<Rightarrow> error + string"

section \<open>state.h: the decoder state\<close>

record State =
  objectSource :: "8 word list"
  hasREX :: bool
  hasSIB :: bool
  hasDisp8 :: bool
  hasDisp32 :: bool
  curIdx :: nat
  instructionLen :: nat
  prefixOffset :: nat
  prefixInstructionByte :: int
  opcodeByte :: int
  modrmByte :: int
  sibByte :: int
  mnemonic :: Mnemonic
  prefix :: Prefix
  rex :: REX
  modrm :: ModRM
  sib :: SIB
  opEnc :: OpEnc
  remOps :: "string list"
  operands :: "Operand list"
  disp8 :: string
  disp32 :: string
  assemblyInstruction :: "string list"
  assemblyOperands :: "string list"

text \<open>Sequencing of steps that may fail: the first error ends the decode, as the
  exception does.\<close>

definition bind :: "error + 'a \<Rightarrow> ('a \<Rightarrow> error + 'b) \<Rightarrow> error + 'b" where
  "bind r f = (case r of Inl e \<Rightarrow> Inl e | Inr x \<Rightarrow> f x)"

text \<open>\<open>objectSource[i]\<close>. The vector's \<open>operator[]\<close> does not check its index.\<close>

definition byteAt :: "State \<Rightarrow> nat \<Rightarrow> error + 8 word" where
  "byteAt s i = (if i < length (objectSource s) then Inr (objectSource s ! i)
                 else Inl (OutOfBoundsRead i))"

text \<open>\<open>std::vector<uint8_t>(objectSource.begin() + i, objectSource.begin() + i + n)\<close>:
  the \<open>n\<close> bytes from position \<open>i\<close>; the range must lie inside the vector.\<close>

definition bytesFrom :: "State \<Rightarrow> nat \<Rightarrow> nat \<Rightarrow> error + 8 word list" where
  "bytesFrom s i n = (if i + n \<le> length (objectSource s) then Inr (take n (drop i (objectSource s)))
                      else Inl (OutOfBoundsRead (length (objectSource s))))"

subsection \<open>Number formatting\<close>

definition digit :: "nat \<Rightarrow> char" where
  "digit d = ''0123456789abcdef'' ! d"

text \<open>\<open>std::to_string\<close> of a non-negative integer, and the decimal output of a stream.\<close>

function to_string_nat :: "nat \<Rightarrow> string" where
  "to_string_nat n = (if n < 10 then [digit n] else to_string_nat (n div 10) @ [digit (n mod 10)])"
  by pat_completeness auto
termination
  by (relation "measure id") auto

declare to_string_nat.simps [simp del]

definition to_string_int :: "int \<Rightarrow> string" where
  "to_string_int i = (if i < 0 then CHR ''-'' # to_string_nat (nat (- i)) else to_string_nat (nat i))"

text \<open>One byte through \<open>std::hex << std::setw(2) << std::setfill('0')\<close>.\<close>

definition hex2 :: "8 word \<Rightarrow> string" where
  "hex2 x = [digit (unat x div 16), digit (unat x mod 16)]"

text \<open>The loop that prints a reversed byte vector after \<open>"0x"\<close>.\<close>

definition hexString :: "8 word list \<Rightarrow> string" where
  "hexString bs = ''0x'' @ concat (map hex2 bs)"

text \<open>\<open>std::stoi\<close> in base 10: leading white space, an optional sign, then digits;
  \<open>std::invalid_argument\<close> without a digit, \<open>std::out_of_range\<close> outside \<open>int\<close>.\<close>

definition isspace :: "char \<Rightarrow> bool" where
  "isspace c = (c \<in> set [CHR '' '', CHR 0x09, CHR 0x0A, CHR 0x0B, CHR 0x0C, CHR 0x0D])"

definition isdigit :: "char \<Rightarrow> bool" where
  "isdigit c = (c \<in> set ''0123456789'')"

definition digitVal :: "char \<Rightarrow> int" where
  "digitVal c = int (of_char c) - 48"

definition stoi :: "string \<Rightarrow> error + int" where
  "stoi str =
     (let s1 = dropWhile isspace str;
          neg = (s1 \<noteq> [] \<and> hd s1 = CHR ''-'');
          s2 = (if s1 \<noteq> [] \<and> (hd s1 = CHR ''-'' \<or> hd s1 = CHR ''+'') then tl s1 else s1);
          ds = takeWhile isdigit s2;
          v = foldl (\<lambda>a c. 10 * a + digitVal c) 0 ds;
          w = (if neg then - v else v)
      in if ds = [] then Inl StdInvalidArgument
         else if w < - (2 ^ 31) \<or> 2 ^ 31 \<le> w then Inl StdOutOfRange
         else Inr w)"

text \<open>\<open>REGISTERS.at(std::stoi(remOps[0]))\<close>: the \<open>int\<close> becomes a \<open>size_t\<close>, so a
  negative index is as far out of range as a large one.\<close>

definition registerAt :: "string list \<Rightarrow> string list \<Rightarrow> error + string" where
  "registerAt regs rem =
     (case rem of [] \<Rightarrow> Inl EmptyRemOps
      | r # _ \<Rightarrow> bind (stoi r) (\<lambda>i.
          if 0 \<le> i \<and> nat i < length regs then Inr (regs ! nat i) else Inl StdOutOfRange))"

text \<open>Conversions between \<open>int\<close> (32 bits) and \<open>size_t\<close> (64 bits).\<close>

definition size_t_of_int :: "int \<Rightarrow> nat" where
  "size_t_of_int i = nat (i mod 2 ^ 64)"

definition int_of_size_t :: "nat \<Rightarrow> int" where
  "int_of_size_t n = (let m = int n mod 2 ^ 32 in if m < 2 ^ 31 then m else m - 2 ^ 32)"

subsection \<open>The stages\<close>

definition init :: "State \<Rightarrow> State" where
  "init s = s\<lparr>hasREX := False, hasSIB := False, hasDisp8 := False, hasDisp32 := False,
              curIdx := 0, instructionLen := 0, prefixOffset := 0, prefix := NONE,
              prefixInstructionByte := - 1, opcodeByte := - 1, modrmByte := - 1, sibByte := - 1,
              remOps := [], operands := [], assemblyInstruction := [], assemblyOperands := []\<rparr>"

definition parsePrefix :: "State \<Rightarrow> error + State" where
  "parsePrefix s = bind (byteAt s (curIdx s)) (\<lambda>b.
     if b = 0x66
     then Inr (s\<lparr>prefix := P66, instructionLen := instructionLen s + 1, curIdx := curIdx s + 1\<rparr>)
     else Inr s)"

definition parsePrefixInstructions :: "State \<Rightarrow> error + State" where
  "parsePrefixInstructions s = bind (byteAt s (curIdx s)) (\<lambda>b.
     let startByte = uint b in
     if startByte \<in> PREFIX_INSTRUCTIONS_BYTES_SET
     then Inr (s\<lparr>prefixInstructionByte := startByte, prefixOffset := 1,
                 instructionLen := instructionLen s + 1, curIdx := curIdx s + 1\<rparr>)
     else Inr s)"

definition parseREX :: "Tables \<Rightarrow> State \<Rightarrow> error + State" where
  "parseREX t s = bind (byteAt s (curIdx s)) (\<lambda>b.
     if drop_bit 4 (uint b) = 4
     then let r = newREX t (uint b) in
          Inr (s\<lparr>hasREX := True, rex := r,
                 instructionLen := instructionLen s + 1, curIdx := curIdx s + 1,
                 prefix := (if rexW r then REXW else REX)\<rparr>)
     else Inr s)"

text \<open>\<open>parseOpecode\<close>, first part: eat one opcode byte, and a second one after a byte of
  \<open>TWO_BYTES_OPCODE_PREFIX\<close>.\<close>

definition eatOpcode :: "Tables \<Rightarrow> State \<Rightarrow> error + State" where
  "eatOpcode t s = bind (byteAt s (curIdx s)) (\<lambda>b.
     let s1 = s\<lparr>opcodeByte := uint b, instructionLen := instructionLen s + 1,
                curIdx := curIdx s + 1\<rparr> in
     if opcodeByte s1 \<in> TWO_BYTES_OPCODE_PREFIX t
     then bind (byteAt s1 (curIdx s1)) (\<lambda>b2.
            Inr (s1\<lparr>opcodeByte := push_bit 8 (opcodeByte s1) + uint b2,
                    instructionLen := instructionLen s1 + 1, curIdx := curIdx s1 + 1\<rparr>))
     else Inr s1)"

text \<open>\<open>parseOpecode\<close>, second part: the row of \<open>OP_LOOKUP\<close> for \<open>(prefix, opcodeByte)\<close>,
  with the prefix the row was found under.\<close>

definition lookupRow :: "Tables \<Rightarrow> Prefix \<Rightarrow> int \<Rightarrow> error + (int \<rightharpoonup> Mnemonic) \<times> Prefix" where
  "lookupRow t p opc =
     (if OP_LOOKUP t (p, opc) \<noteq> None then Inr (the (OP_LOOKUP t (p, opc)), p)
      else if p = REXW \<and> OP_LOOKUP t (REX, opc) \<noteq> None
        then Inr (the (OP_LOOKUP t (REX, opc)), REX)
      else if p = REX \<and> OP_LOOKUP t (NONE, opc) \<noteq> None
        then Inr (the (OP_LOOKUP t (NONE, opc)), NONE)
      else Inl (UnknownOpcode p opc))"

text \<open>\<open>reg2mnem[k]\<close> on the local copy of the row: \<open>operator[]\<close> of
  \<open>std::unordered_map\<close> inserts a value-initialised \<open>Mnemonic\<close>, the enumerator 0, under
  a key that is absent.\<close>

definition subscript :: "(int \<rightharpoonup> Mnemonic) \<Rightarrow> int \<Rightarrow> Mnemonic" where
  "subscript reg2mnem k = (case reg2mnem k of Some m \<Rightarrow> m | None \<Rightarrow> MOV)"

text \<open>\<open>parseOpecode\<close>, third part: the mnemonic of the row, by the \<open>reg\<close> of the peeked
  ModR/M byte or by the wildcard \<open>-1\<close>.\<close>

definition selectMnemonic :: "Tables \<Rightarrow> (int \<rightharpoonup> Mnemonic) \<Rightarrow> int \<Rightarrow> Mnemonic" where
  "selectMnemonic t reg2mnem mb =
     (if mb \<ge> 0
      then (let r = getRegVal t mb in
            if reg2mnem r \<noteq> None then subscript reg2mnem r else subscript reg2mnem (- 1))
      else subscript reg2mnem (- 1))"

definition parseOpecode :: "Tables \<Rightarrow> State \<Rightarrow> error + State" where
  "parseOpecode t s = bind (eatOpcode t s) (\<lambda>s1.
     bind (lookupRow t (prefix s1) (opcodeByte s1)) (\<lambda>(reg2mnem, p).
       let s2 = s1\<lparr>prefix := p\<rparr>;
           s3 = (if curIdx s2 < length (objectSource s2)
                 then s2\<lparr>modrmByte := uint (objectSource s2 ! curIdx s2)\<rparr> else s2);
           s4 = s3\<lparr>mnemonic := selectMnemonic t reg2mnem (modrmByte s3)\<rparr>;
           s5 = s4\<lparr>assemblyInstruction :=
                      assemblyInstruction s4 @ [to_string_Mnemonic (mnemonic s4)]\<rparr>
       in case OPERAND_LOOKUP t (prefix s5, mnemonic s5, opcodeByte s5) of
            Some (enc, rem, ops) \<Rightarrow> Inr (s5\<lparr>opEnc := enc, remOps := rem, operands := ops\<rparr>)
          | None \<Rightarrow> Inl (UnknownOperandForm (prefix s5) (mnemonic s5) (opcodeByte s5))))"

definition parseModRM :: "Tables \<Rightarrow> State \<Rightarrow> error + State" where
  "parseModRM t s =
     (if hasModrm (opEnc s)
      then if modrmByte s < 0 then Inl ExpectedModRM
           else Inr (s\<lparr>instructionLen := instructionLen s + 1, curIdx := curIdx s + 1,
                       modrm := newModRM t (modrmByte s) (rex s)\<rparr>)
      else Inr s)"

definition parseSIB :: "Tables \<Rightarrow> State \<Rightarrow> error + State" where
  "parseSIB t s =
     (if hasModrm (opEnc s) \<and> hasSib (modrm s)
      then let s1 = (if curIdx s < length (objectSource s)
                     then s\<lparr>sibByte := uint (objectSource s ! curIdx s)\<rparr> else s)
           in if sibByte s1 < 0 then Inl ExpectedSIB
              else Inr (s1\<lparr>sib := newSIB t (sibByte s1) (modByte (modrm s1)) (rex s1),
                           instructionLen := instructionLen s1 + 1, curIdx := curIdx s1 + 1\<rparr>)
      else Inr s)"

text \<open>The two conditions of \<open>parseAddressOffset\<close>.\<close>

definition wantsDisp8 :: "State \<Rightarrow> bool" where
  "wantsDisp8 s =
     ((hasModrm (opEnc s) \<and> hasDisp8M (modrm s)) \<or>
      (hasModrm (opEnc s) \<and> hasSib (modrm s) \<and> hasDisp8S (sib s)) \<or>
      (hasModrm (opEnc s) \<and> hasSib (modrm s) \<and> modByte (modrm s) = 1 \<and> baseByte (sib s) = 5))"

definition wantsDisp32 :: "State \<Rightarrow> bool" where
  "wantsDisp32 s =
     ((hasModrm (opEnc s) \<and> hasDisp32M (modrm s)) \<or>
      (hasModrm (opEnc s) \<and> hasSib (modrm s) \<and> hasDisp32S (sib s)) \<or>
      (hasModrm (opEnc s) \<and> hasSib (modrm s) \<and>
       (modByte (modrm s) = 0 \<or> modByte (modrm s) = 2) \<and> baseByte (sib s) = 5))"

definition readDisp8 :: "State \<Rightarrow> error + State" where
  "readDisp8 s =
     (if wantsDisp8 s
      then bind (byteAt s (curIdx s)) (\<lambda>b.
             Inr (s\<lparr>disp8 := to_string_nat (unat b), hasDisp8 := True,
                    instructionLen := instructionLen s + 1, curIdx := curIdx s + 1\<rparr>))
      else Inr s)"

definition readDisp32 :: "State \<Rightarrow> error + State" where
  "readDisp32 s =
     (if wantsDisp32 s
      then bind (bytesFrom s (curIdx s) 4) (\<lambda>bs.
             Inr (s\<lparr>disp32 := hexString (rev bs), hasDisp32 := True,
                    instructionLen := instructionLen s + 4, curIdx := curIdx s + 4\<rparr>))
      else Inr s)"

definition parseAddressOffset :: "State \<Rightarrow> error + State" where
  "parseAddressOffset s = bind (readDisp8 s) readDisp32"

subsection \<open>The operands\<close>

definition immSize :: "Operand \<Rightarrow> nat" where
  "immSize operand =
     (if operand = imm64 then 8 else if operand = imm32 then 4
      else if operand = imm16 then 2 else if operand = imm8 then 1 else 0)"

text \<open>The body of the loop over \<open>operands\<close>: the text of one operand, pushed on
  \<open>assemblyOperands\<close>. A branch that assigns nothing leaves the empty string.\<close>

definition decodeOperand :: "Tables \<Rightarrow> State \<Rightarrow> Operand \<Rightarrow> error + State" where
  "decodeOperand t s operand =
     (if isA_REG t operand
      then Inr (s\<lparr>assemblyOperands := assemblyOperands s @ [to_string_Operand operand]\<rparr>)
      else if isRM t operand \<or> isREG t operand
      then bind
             (if hasModrm (opEnc s)
              then (if isRM t operand then getAddrMode t (modrm s) operand (disp8 s) (disp32 s)
                    else getReg t (modrm s) operand)
              else (if is8Bit t operand then registerAt (REGISTERS8 t) (remOps s)
                    else if is16Bit t operand then registerAt (REGISTERS16 t) (remOps s)
                    else if is32Bit t operand then registerAt (REGISTERS32 t) (remOps s)
                    else if is64Bit t operand then registerAt (REGISTERS64 t) (remOps s)
                    else Inr []))
             (\<lambda>v. bind
                (if isRM t operand \<and> hasModrm (opEnc s) \<and> hasSib (modrm s)
                 then getAddr t (sib s) operand (disp8 s) (disp32 s) else Inr v)
                (\<lambda>v'. Inr (s\<lparr>assemblyOperands := assemblyOperands s @ [v']\<rparr>)))
      else if isIMM t operand
      then bind (bytesFrom s (curIdx s) (immSize operand)) (\<lambda>imm.
             Inr (s\<lparr>instructionLen := instructionLen s + immSize operand,
                    curIdx := curIdx s + immSize operand,
                    assemblyOperands := assemblyOperands s @ [hexString (rev imm)]\<rparr>))
      else Inr (s\<lparr>assemblyOperands := assemblyOperands s @ ['''']\<rparr>))"

fun decodeOperands :: "Tables \<Rightarrow> State \<Rightarrow> Operand list \<Rightarrow> error + State" where
  "decodeOperands t s [] = Inr s"
| "decodeOperands t s (operand # rest) =
     bind (decodeOperand t s operand) (\<lambda>s'. decodeOperands t s' rest)"

text \<open>The two loops that join strings, each piece after one space.\<close>

definition joinSpaced :: "string list \<Rightarrow> string" where
  "joinSpaced xs = concat (map (\<lambda>a. '' '' @ a) xs)"

text \<open>The seven stages in the order \<open>decodeSingleInstruction\<close> calls them.\<close>

definition parseAll :: "Tables \<Rightarrow> State \<Rightarrow> error + State" where
  "parseAll t s =
     bind (parsePrefixInstructions s) (\<lambda>s1.
     bind (parsePrefix s1) (\<lambda>s2.
     bind (parseREX t s2) (\<lambda>s3.
     bind (parseOpecode t s3) (\<lambda>s4.
     bind (parseModRM t s4) (\<lambda>s5.
     bind (parseSIB t s5) parseAddressOffset)))))"

text \<open>\<open>decodeSingleInstruction\<close>. The result is the returned tuple
  \<open>(startIdx, instructionLen, mnemonic, text)\<close>, the line written to \<open>std::cout\<close> (it ends
  with the newline of \<open>std::endl\<close>), and the state the call leaves behind.\<close>

definition decodeSingleInstruction ::
  "Tables \<Rightarrow> State \<Rightarrow> int \<Rightarrow> error + (int \<times> int \<times> string \<times> string) \<times> string \<times> State" where
  "decodeSingleInstruction t s startIdx =
     bind (parseAll t ((init s)\<lparr>curIdx := size_t_of_int startIdx\<rparr>)) (\<lambda>s7.
     bind (decodeOperands t s7 (operands s7)) (\<lambda>s8.
       let ao = joinSpaced (assemblyOperands s8);
           s9 = s8\<lparr>assemblyInstruction := assemblyInstruction s8 @ [ao]\<rparr>;
           assemblyInstructionStr = joinSpaced (assemblyInstruction s9);
           line = to_string_int startIdx @ '' '' @ to_string_nat (instructionLen s9) @ '' '' @
                  assemblyInstructionStr @ [CHR 0x0A]
       in Inr ((startIdx, int_of_size_t (instructionLen s9), to_string_Mnemonic (mnemonic s9),
                assemblyInstructionStr), line, s9)))"

text \<open>The tuple a call returns.\<close>

definition decoded :: "Tables \<Rightarrow> State \<Rightarrow> int \<Rightarrow> error + int \<times> int \<times> string \<times> string" where
  "decoded t s startIdx = map_sum id fst (decodeSingleInstruction t s startIdx)"

section \<open>A table for the scenarios of the specification\<close>

text \<open>Modelled from the spec: the register-name tables of table.h, which is not among the
  sources. "Four sequences indexable by 0..15"; the scenarios fix \<open>al\<close>, \<open>ax\<close>,
  \<open>eax\<close>, \<open>ecx\<close>, \<open>r8d\<close>, \<open>rax\<close>, \<open>rcx\<close>, \<open>rdx\<close>, \<open>rbp\<close>, \<open>r9\<close> and \<open>r10\<close>,
  the other entries are the usual names.\<close>

definition spec_REGISTERS8 :: "string list" where
  "spec_REGISTERS8 = [''al'', ''cl'', ''dl'', ''bl'', ''spl'', ''bpl'', ''sil'', ''dil'',
     ''r8b'', ''r9b'', ''r10b'', ''r11b'', ''r12b'', ''r13b'', ''r14b'', ''r15b'']"

definition spec_REGISTERS16 :: "string list" where
  "spec_REGISTERS16 = [''ax'', ''cx'', ''dx'', ''bx'', ''sp'', ''bp'', ''si'', ''di'',
     ''r8w'', ''r9w'', ''r10w'', ''r11w'', ''r12w'', ''r13w'', ''r14w'', ''r15w'']"

definition spec_REGISTERS32 :: "string list" where
  "spec_REGISTERS32 = [''eax'', ''ecx'', ''edx'', ''ebx'', ''esp'', ''ebp'', ''esi'', ''edi'',
     ''r8d'', ''r9d'', ''r10d'', ''r11d'', ''r12d'', ''r13d'', ''r14d'', ''r15d'']"

definition spec_REGISTERS64 :: "string list" where
  "spec_REGISTERS64 = [''rax'', ''rcx'', ''rdx'', ''rbx'', ''rsp'', ''rbp'', ''rsi'', ''rdi'',
     ''r8'', ''r9'', ''r10'', ''r11'', ''r12'', ''r13'', ''r14'', ''r15'']"

text \<open>Modelled from the spec: \<open>getRegVal\<close>, which is not among the sources. The \<open>reg\<close>
  field of a ModR/M byte \<open>(mod: 2b, reg: 3b, rm: 3b)\<close>.\<close>

definition spec_getRegVal :: "int \<Rightarrow> int" where
  "spec_getRegVal b = (b div 8) mod 8"

text \<open>Modelled from the spec: the constructor of \<open>REX\<close>, which is not among the sources.
  The low nibble of \<open>0100|W|R|X|B\<close>.\<close>

definition spec_newREX :: "int \<Rightarrow> REX" where
  "spec_newREX b = \<lparr>rexW = ((b div 8) mod 2 = 1), rexR = ((b div 4) mod 2 = 1),
                    rexX = ((b div 2) mod 2 = 1), rexB = (b mod 2 = 1)\<rparr>"

text \<open>Modelled from the spec: the constructor of \<open>ModRM\<close>, which is not among the sources.
  \<open>hasSib = (mod \<noteq> 11) \<and> (rm = 100)\<close>, \<open>hasDisp8 = (mod = 01) \<and> \<not>hasSib\<close>,
  \<open>hasDisp32 = ((mod = 10) \<and> \<not>hasSib) \<or> ((mod = 00) \<and> (rm = 101))\<close>.\<close>

definition spec_newModRM :: "int \<Rightarrow> REX \<Rightarrow> ModRM" where
  "spec_newModRM b r =
     (let md = b div 64; rg = (b div 8) mod 8; m = b mod 8; hs = (md \<noteq> 3 \<and> m = 4)
      in \<lparr>modByte = md, regByte = rg, rmByte = m, rexM = r, hasSib = hs,
          hasDisp8M = (md = 1 \<and> \<not> hs),
          hasDisp32M = ((md = 2 \<and> \<not> hs) \<or> (md = 0 \<and> m = 5))\<rparr>)"

text \<open>Modelled from the spec: the constructor of \<open>SIB\<close>, which is not among the sources.
  "Displacement carry-over from ModR/M still applies: mod=01 gives disp8, mod=10 gives
  disp32", and \<open>base = 101\<close> with \<open>mod = 00\<close> is followed by a 32-bit displacement.\<close>

definition spec_newSIB :: "int \<Rightarrow> int \<Rightarrow> REX \<Rightarrow> SIB" where
  "spec_newSIB b md r =
     \<lparr>scaleByte = b div 64, indexByte = (b div 8) mod 8, baseByte = b mod 8, modS = md, rexS = r,
      hasDisp8S = (md = 1), hasDisp32S = (md = 2 \<or> (b mod 8 = 5 \<and> md = 0))\<rparr>"

text \<open>Modelled from the spec: \<open>ModRM::getReg\<close>, which is not among the sources.
  \<open>regExt = reg + 8 * R\<close> selects in a register table. The operand kinds \<open>reg\<close> and
  \<open>rm\<close> carry no width; the scenarios \<open>48 83 C0 01\<close> (rax) and \<open>01 C1\<close> (ecx, eax)
  are met by the 64-bit table under \<open>REX.W\<close> and the 32-bit table otherwise.\<close>

definition spec_regName :: "REX \<Rightarrow> int \<Rightarrow> error + string" where
  "spec_regName r i =
     (let regs = (if rexW r then spec_REGISTERS64 else spec_REGISTERS32)
      in if 0 \<le> i \<and> nat i < length regs then Inr (regs ! nat i) else Inl StdOutOfRange)"

definition spec_getReg :: "ModRM \<Rightarrow> Operand \<Rightarrow> error + string" where
  "spec_getReg m operand = spec_regName (rexM m) (regByte m + (if rexR (rexM m) then 8 else 0))"

text \<open>Modelled from the spec: \<open>ModRM::getAddrMode\<close>, which is not among the sources.
  The effective address without SIB: \<open>[r]\<close>, the bare \<open>disp32\<close> for \<open>mod = 00, rm = 101\<close>,
  \<open>[r + disp8]\<close>, \<open>[r + disp32]\<close>, and the register itself for \<open>mod = 11\<close>.\<close>

definition spec_getAddrMode :: "ModRM \<Rightarrow> Operand \<Rightarrow> string \<Rightarrow> string \<Rightarrow> error + string" where
  "spec_getAddrMode m operand d8 d32 =
     (let rmExt = rmByte m + (if rexB (rexM m) then 8 else 0);
          r64 = spec_REGISTERS64 ! nat rmExt
      in if modByte m = 3 then spec_regName (rexM m) rmExt
         else if modByte m = 0 \<and> rmByte m = 5 then Inr d32
         else if modByte m = 0 then Inr (''['' @ r64 @ '']'')
         else if modByte m = 1 then Inr (''['' @ r64 @ '' + '' @ d8 @ '']'')
         else Inr (''['' @ r64 @ '' + '' @ d32 @ '']''))"

text \<open>Modelled from the spec: \<open>SIB::getAddr\<close>, which is not among the sources. The terms
  in the order displacement, base, scaled index; the base is absent for \<open>base = 101\<close> with
  \<open>mod = 00\<close>, the index for \<open>index = 100\<close> without \<open>REX.X\<close>; a lone \<open>disp32\<close> is
  written without brackets.\<close>

definition spec_joinPlus :: "string list \<Rightarrow> string" where
  "spec_joinPlus xs = (case xs of [] \<Rightarrow> [] | x # r \<Rightarrow> x @ concat (map (\<lambda>a. '' + '' @ a) r))"

definition spec_getAddr :: "SIB \<Rightarrow> Operand \<Rightarrow> string \<Rightarrow> string \<Rightarrow> error + string" where
  "spec_getAddr sb operand d8 d32 =
     (let noBase = (baseByte sb = 5 \<and> modS sb = 0);
          noIndex = (indexByte sb = 4 \<and> \<not> rexX (rexS sb));
          base = spec_REGISTERS64 ! nat (baseByte sb + (if rexB (rexS sb) then 8 else 0));
          index = spec_REGISTERS64 ! nat (indexByte sb + (if rexX (rexS sb) then 8 else 0));
          scale = [1, 2, 4, 8 :: nat] ! nat (scaleByte sb);
          disp = (if hasDisp8S sb then [d8] else if hasDisp32S sb then [d32] else []);
          terms = disp @ (if noBase then [] else [base]) @
                  (if noIndex then [] else [index @ '' * '' @ to_string_nat scale])
      in if noBase \<and> noIndex then Inr d32 else Inr (''['' @ spec_joinPlus terms @ '']''))"

text \<open>Modelled from the spec: the operand classifiers of table.h, which is not among the
  sources. \<open>al/ax/eax/rax\<close> are the implicit accumulators, \<open>reg\<close> and \<open>rm\<close> the slots
  filled from ModR/M, \<open>imm8..imm64\<close> the immediates; for the width classes the kinds
  that name a width have it, and \<open>reg\<close> and \<open>rm\<close> count as 32-bit.\<close>

definition spec_isA_REG :: "Operand \<Rightarrow> bool" where
  "spec_isA_REG x = (x = al \<or> x = ax \<or> x = eax \<or> x = rax)"

definition spec_isIMM :: "Operand \<Rightarrow> bool" where
  "spec_isIMM x = (x = imm8 \<or> x = imm16 \<or> x = imm32 \<or> x = imm64)"

definition spec_is8Bit :: "Operand \<Rightarrow> bool" where
  "spec_is8Bit x = (x = imm8 \<or> x = al)"

definition spec_is16Bit :: "Operand \<Rightarrow> bool" where
  "spec_is16Bit x = (x = imm16 \<or> x = ax)"

definition spec_is32Bit :: "Operand \<Rightarrow> bool" where
  "spec_is32Bit x = (x = imm32 \<or> x = eax \<or> x = reg \<or> x = rm)"

definition spec_is64Bit :: "Operand \<Rightarrow> bool" where
  "spec_is64Bit x = (x = imm64 \<or> x = rax)"

text \<open>Modelled from the spec: rows of \<open>OP_LOOKUP\<close> and \<open>OPERAND_LOOKUP\<close> of table.h, which
  is not among the sources: only the rows that the scenarios \<open>90\<close>, \<open>B8 44 33 22 11\<close>,
  \<open>01 C1\<close>, \<open>8B 48 01\<close>, \<open>83 C0 01\<close> and \<open>83 C8 01\<close> need, with \<open>B8+rd\<close> as the
  opcode-embedded-register form whose register index is \<open>residualOps[0]\<close>. The table
  of the repository has more rows; nothing below depends on a row being absent from it
  except where the absence is stated.\<close>

definition spec_OP_LOOKUP :: "Prefix \<times> int \<rightharpoonup> (int \<rightharpoonup> Mnemonic)" where
  "spec_OP_LOOKUP =
     [(NONE, 0x90) \<mapsto> [- 1 \<mapsto> NOP],
      (NONE, 0xB8) \<mapsto> [- 1 \<mapsto> MOV],
      (NONE, 0x01) \<mapsto> [- 1 \<mapsto> ADD],
      (NONE, 0x8B) \<mapsto> [- 1 \<mapsto> MOV],
      (NONE, 0x83) \<mapsto> [0 \<mapsto> ADD, 1 \<mapsto> OR]]"

definition spec_OPERAND_LOOKUP ::
  "Prefix \<times> Mnemonic \<times> int \<rightharpoonup> OpEnc \<times> string list \<times> Operand list" where
  "spec_OPERAND_LOOKUP =
     [(NONE, NOP, 0x90) \<mapsto> (NP, [], []),
      (NONE, MOV, 0xB8) \<mapsto> (OI, [''0''], [reg, imm32]),
      (NONE, ADD, 0x01) \<mapsto> (MR, [], [rm, reg]),
      (NONE, MOV, 0x8B) \<mapsto> (RM, [], [reg, rm]),
      (NONE, ADD, 0x83) \<mapsto> (MI, [], [rm, imm8]),
      (NONE, OR, 0x83) \<mapsto> (MI, [], [rm, imm8])]"

definition spec_tables :: Tables where
  "spec_tables =
     \<lparr>TWO_BYTES_OPCODE_PREFIX = {0x0F},
      OP_LOOKUP = spec_OP_LOOKUP,
      OPERAND_LOOKUP = spec_OPERAND_LOOKUP,
      REGISTERS8 = spec_REGISTERS8,
      REGISTERS16 = spec_REGISTERS16,
      REGISTERS32 = spec_REGISTERS32,
      REGISTERS64 = spec_REGISTERS64,
      getRegVal = spec_getRegVal,
      isA_REG = spec_isA_REG,
      isRM = (\<lambda>x. x = rm),
      isREG = (\<lambda>x. x = reg),
      isIMM = spec_isIMM,
      is8Bit = spec_is8Bit,
      is16Bit = spec_is16Bit,
      is32Bit = spec_is32Bit,
      is64Bit = spec_is64Bit,
      newREX = spec_newREX,
      newModRM = spec_newModRM,
      newSIB = spec_newSIB,
      getAddrMode = spec_getAddrMode,
      getReg = spec_getReg,
      getAddr = spec_getAddr\<rparr>"

text \<open>The constructor \<open>State(objectSource)\<close>. It initialises the four flags, the three
  counters and \<open>prefix\<close>; strings and vectors start empty. The members it leaves
  uninitialised are given here the value \<open>init\<close> assigns to them, or the first
  enumerator, or all flags clear.\<close>

definition noREX :: REX where
  "noREX = \<lparr>rexW = False, rexR = False, rexX = False, rexB = False\<rparr>"

definition newState :: "8 word list \<Rightarrow> State" where
  "newState buf =
     \<lparr>objectSource = buf, hasREX = False, hasSIB = False, hasDisp8 = False, hasDisp32 = False,
      curIdx = 0, instructionLen = 0, prefixOffset = 0,
      prefixInstructionByte = - 1, opcodeByte = - 1, modrmByte = - 1, sibByte = - 1,
      mnemonic = MOV, prefix = NONE, rex = noREX,
      modrm = \<lparr>modByte = 0, regByte = 0, rmByte = 0, rexM = noREX, hasSib = False,
               hasDisp8M = False, hasDisp32M = False\<rparr>,
      sib = \<lparr>scaleByte = 0, indexByte = 0, baseByte = 0, modS = 0, rexS = noREX,
             hasDisp8S = False, hasDisp32S = False\<rparr>,
      opEnc = I, remOps = [], operands = [], disp8 = [], disp32 = [],
      assemblyInstruction = [], assemblyOperands = []\<rparr>"

section \<open>Notions used by the statements below\<close>



text \<open>The steps of \<open>decodeSingleInstruction\<close> up to the opcode bytes.\<close>

definition parseUpToOpcode :: "Tables \<Rightarrow> State \<Rightarrow> error + State" where
  "parseUpToOpcode t s =
     bind (parsePrefixInstructions s) (\<lambda>s1.
     bind (parsePrefix s1) (\<lambda>s2.
     bind (parseREX t s2) (eatOpcode t)))"

text \<open>The byte cursor is \<open>k\<close> plus the length counter.\<close>

definition lockstep :: "nat \<Rightarrow> State \<Rightarrow> bool" where
  "lockstep k s \<longleftrightarrow> curIdx s = k + instructionLen s"





section \<open>Lemmas\<close>


lemmas stage_defs = parsePrefixInstructions_def
  parsePrefix_def parseREX_def parseOpecode_def eatOpcode_def lookupRow_def selectMnemonic_def
  subscript_def parseModRM_def parseSIB_def parseAddressOffset_def readDisp8_def readDisp32_def
  wantsDisp8_def wantsDisp32_def decodeOperand_def byteAt_def bytesFrom_def bind_def

lemmas run_defs = decoded_def decodeSingleInstruction_def parseAll_def init_def stage_defs
  size_t_of_int_def int_of_size_t_def joinSpaced_def hexString_def hex2_def digit_def
  to_string_int_def registerAt_def stoi_def isspace_def isdigit_def digitVal_def immSize_def
  PREFIX_INSTRUCTIONS_BYTES_SET_def Let_def to_string_nat.simps

lemmas spec_defs = spec_tables_def spec_OP_LOOKUP_def spec_OPERAND_LOOKUP_def
  spec_REGISTERS8_def spec_REGISTERS16_def spec_REGISTERS32_def spec_REGISTERS64_def
  spec_getRegVal_def spec_newREX_def spec_newModRM_def spec_newSIB_def spec_regName_def
  spec_getReg_def spec_getAddrMode_def spec_getAddr_def spec_joinPlus_def
  spec_isA_REG_def spec_isIMM_def spec_is8Bit_def spec_is16Bit_def spec_is32Bit_def
  spec_is64Bit_def newState_def noREX_def

subsection \<open>What each stage leaves unchanged\<close>


lemma bind_Inr: "bind r f = Inr y \<longleftrightarrow> (\<exists>x. r = Inr x \<and> f x = Inr y)"
  by (cases r) (simp_all add: bind_def)

lemma parsePrefixInstructions_frame:
  assumes "parsePrefixInstructions s = Inr s'"
  shows "objectSource s' = objectSource s \<and> curIdx s' \<le> length (objectSource s) \<and>
         (lockstep k s \<longrightarrow> lockstep k s') \<and>
         modrmByte s' = modrmByte s \<and> sibByte s' = sibByte s \<and>
         assemblyInstruction s' = assemblyInstruction s \<and> assemblyOperands s' = assemblyOperands s"
  using assms
  by (auto simp: parsePrefixInstructions_def bind_Inr byteAt_def lockstep_def Let_def split: if_splits)

lemma parsePrefix_frame:
  assumes "parsePrefix s = Inr s'"
  shows "objectSource s' = objectSource s \<and> curIdx s' \<le> length (objectSource s) \<and>
         (lockstep k s \<longrightarrow> lockstep k s') \<and>
         modrmByte s' = modrmByte s \<and> sibByte s' = sibByte s \<and>
         assemblyInstruction s' = assemblyInstruction s \<and> assemblyOperands s' = assemblyOperands s"
  using assms
  by (auto simp: parsePrefix_def bind_Inr byteAt_def lockstep_def split: if_splits)

lemma parseREX_frame:
  assumes "parseREX t s = Inr s'"
  shows "objectSource s' = objectSource s \<and> curIdx s' \<le> length (objectSource s) \<and>
         (lockstep k s \<longrightarrow> lockstep k s') \<and>
         modrmByte s' = modrmByte s \<and> sibByte s' = sibByte s \<and>
         assemblyInstruction s' = assemblyInstruction s \<and> assemblyOperands s' = assemblyOperands s"
  using assms
  by (auto simp: parseREX_def bind_Inr byteAt_def lockstep_def Let_def split: if_splits)

lemma eatOpcode_frame:
  assumes "eatOpcode t s = Inr s'"
  shows "objectSource s' = objectSource s \<and> curIdx s' \<le> length (objectSource s) \<and>
         (lockstep k s \<longrightarrow> lockstep k s') \<and>
         modrmByte s' = modrmByte s \<and> sibByte s' = sibByte s \<and>
         assemblyInstruction s' = assemblyInstruction s \<and> assemblyOperands s' = assemblyOperands s"
  using assms
  by (auto simp: eatOpcode_def bind_Inr byteAt_def lockstep_def Let_def split: if_splits)

lemma parseOpecode_frame:
  assumes "parseOpecode t s = Inr s'"
  shows "objectSource s' = objectSource s \<and> curIdx s' \<le> length (objectSource s) \<and>
         (lockstep k s \<longrightarrow> lockstep k s') \<and>
         (modrmByte s = - 1 \<and> 0 \<le> modrmByte s' \<longrightarrow> curIdx s' < length (objectSource s)) \<and>
         sibByte s' = sibByte s \<and>
         assemblyInstruction s' = assemblyInstruction s @ [to_string_Mnemonic (mnemonic s')] \<and>
         assemblyOperands s' = assemblyOperands s"
proof -
  from assms obtain s1 reg2mnem p where
    e: "eatOpcode t s = Inr s1" and l: "lookupRow t (prefix s1) (opcodeByte s1) = Inr (reg2mnem, p)"
    by (auto simp: parseOpecode_def bind_Inr)
  note f = eatOpcode_frame [OF e, of k]
  show ?thesis
    using assms e l f
    by (auto simp: parseOpecode_def bind_def Let_def lockstep_def split: if_splits option.splits)
qed

lemma parseModRM_frame:
  assumes "parseModRM t s = Inr s'"
  shows "objectSource s' = objectSource s \<and>
         (curIdx s \<le> length (objectSource s) \<and>
          (0 \<le> modrmByte s \<longrightarrow> curIdx s < length (objectSource s))
            \<longrightarrow> curIdx s' \<le> length (objectSource s)) \<and>
         (lockstep k s \<longrightarrow> lockstep k s') \<and> sibByte s' = sibByte s \<and>
         mnemonic s' = mnemonic s \<and> operands s' = operands s \<and>
         assemblyInstruction s' = assemblyInstruction s \<and> assemblyOperands s' = assemblyOperands s"
  using assms by (auto simp: parseModRM_def lockstep_def split: if_splits)

lemma parseSIB_frame:
  assumes "parseSIB t s = Inr s'"
  shows "objectSource s' = objectSource s \<and>
         (curIdx s \<le> length (objectSource s) \<and> sibByte s = - 1
            \<longrightarrow> curIdx s' \<le> length (objectSource s)) \<and>
         (lockstep k s \<longrightarrow> lockstep k s') \<and>
         mnemonic s' = mnemonic s \<and> operands s' = operands s \<and>
         assemblyInstruction s' = assemblyInstruction s \<and> assemblyOperands s' = assemblyOperands s"
  using assms by (auto simp: parseSIB_def lockstep_def Let_def split: if_splits)

lemma readDisp8_frame:
  assumes "readDisp8 s = Inr s'"
  shows "objectSource s' = objectSource s \<and>
         (curIdx s \<le> length (objectSource s) \<longrightarrow> curIdx s' \<le> length (objectSource s)) \<and>
         (lockstep k s \<longrightarrow> lockstep k s') \<and>
         mnemonic s' = mnemonic s \<and> operands s' = operands s \<and>
         assemblyInstruction s' = assemblyInstruction s \<and> assemblyOperands s' = assemblyOperands s"
  using assms by (auto simp: readDisp8_def bind_Inr byteAt_def lockstep_def split: if_splits)

lemma readDisp32_frame:
  assumes "readDisp32 s = Inr s'"
  shows "objectSource s' = objectSource s \<and>
         (curIdx s \<le> length (objectSource s) \<longrightarrow> curIdx s' \<le> length (objectSource s)) \<and>
         (lockstep k s \<longrightarrow> lockstep k s') \<and>
         mnemonic s' = mnemonic s \<and> operands s' = operands s \<and>
         assemblyInstruction s' = assemblyInstruction s \<and> assemblyOperands s' = assemblyOperands s"
  using assms by (auto simp: readDisp32_def bind_Inr bytesFrom_def lockstep_def split: if_splits)

lemma parseAddressOffset_frame:
  assumes "parseAddressOffset s = Inr s'"
  shows "objectSource s' = objectSource s \<and>
         (curIdx s \<le> length (objectSource s) \<longrightarrow> curIdx s' \<le> length (objectSource s)) \<and>
         (lockstep k s \<longrightarrow> lockstep k s') \<and>
         mnemonic s' = mnemonic s \<and> operands s' = operands s \<and>
         assemblyInstruction s' = assemblyInstruction s \<and> assemblyOperands s' = assemblyOperands s"
proof -
  from assms obtain s1 where a: "readDisp8 s = Inr s1" and b: "readDisp32 s1 = Inr s'"
    by (auto simp: parseAddressOffset_def bind_Inr)
  show ?thesis
    using readDisp8_frame [OF a, of k] readDisp32_frame [OF b, of k] by simp
qed

lemma decodeOperand_cases:
  assumes "decodeOperand t s operand = Inr s'"
  shows "(\<exists>v. s' = s\<lparr>assemblyOperands := assemblyOperands s @ [v]\<rparr>) \<or>
         (curIdx s + immSize operand \<le> length (objectSource s) \<and>
          s' = s\<lparr>instructionLen := instructionLen s + immSize operand,
                  curIdx := curIdx s + immSize operand,
                  assemblyOperands := assemblyOperands s @
                    [hexString (rev (take (immSize operand) (drop (curIdx s) (objectSource s))))]\<rparr>)"
proof (cases "isA_REG t operand")
  case True
  with assms show ?thesis by (auto simp: decodeOperand_def)
next
  case False
  note nA = this
  show ?thesis
  proof (cases "isRM t operand \<or> isREG t operand")
    case True
    with nA assms show ?thesis
      unfolding decodeOperand_def by (simp only: if_True if_False bind_Inr) blast
  next
    case False
    note nR = this
    show ?thesis
    proof (cases "isIMM t operand")
      case True
      with nA nR assms show ?thesis
        unfolding decodeOperand_def
        by (simp only: if_True if_False bind_Inr bytesFrom_def split: if_splits) auto
    next
      case False
      with nA nR assms show ?thesis
        unfolding decodeOperand_def by (simp only: if_True if_False) auto
    qed
  qed
qed

lemma decodeOperand_frame:
  assumes "decodeOperand t s operand = Inr s'"
  shows "objectSource s' = objectSource s \<and>
         (curIdx s \<le> length (objectSource s) \<longrightarrow> curIdx s' \<le> length (objectSource s)) \<and>
         (lockstep k s \<longrightarrow> lockstep k s') \<and>
         mnemonic s' = mnemonic s \<and> operands s' = operands s \<and>
         assemblyInstruction s' = assemblyInstruction s \<and>
         length (assemblyOperands s') = Suc (length (assemblyOperands s))"
  using decodeOperand_cases [OF assms]
  by (auto simp: lockstep_def)

lemma decodeOperands_frame:
  assumes "decodeOperands t s ops = Inr s'"
  shows "objectSource s' = objectSource s \<and>
         (curIdx s \<le> length (objectSource s) \<longrightarrow> curIdx s' \<le> length (objectSource s)) \<and>
         (lockstep k s \<longrightarrow> lockstep k s') \<and>
         mnemonic s' = mnemonic s \<and> operands s' = operands s \<and>
         assemblyInstruction s' = assemblyInstruction s \<and>
         length (assemblyOperands s') = length (assemblyOperands s) + length ops"
  using assms
proof (induction ops arbitrary: s)
  case Nil
  then show ?case by simp
next
  case (Cons operand rest)
  from Cons.prems obtain s1 where
    a: "decodeOperand t s operand = Inr s1" and b: "decodeOperands t s1 rest = Inr s'"
    by (auto simp: bind_Inr)
  show ?case
    using decodeOperand_frame [OF a, of k] Cons.IH [OF b] by simp
qed

lemma parseAll_frame:
  assumes "parseAll t s = Inr s'"
    and "modrmByte s = - 1" "sibByte s = - 1" "assemblyInstruction s = []"
  shows "objectSource s' = objectSource s \<and> curIdx s' \<le> length (objectSource s) \<and>
         (lockstep k s \<longrightarrow> lockstep k s') \<and>
         assemblyInstruction s' = [to_string_Mnemonic (mnemonic s')] \<and>
         assemblyOperands s' = assemblyOperands s"
proof -
  from assms(1) obtain s1 s2 s3 s4 s5 s6 where
    1: "parsePrefixInstructions s = Inr s1" and 2: "parsePrefix s1 = Inr s2" and
    3: "parseREX t s2 = Inr s3" and 4: "parseOpecode t s3 = Inr s4" and
    5: "parseModRM t s4 = Inr s5" and 6: "parseSIB t s5 = Inr s6" and
    7: "parseAddressOffset s6 = Inr s'"
    unfolding parseAll_def bind_Inr by blast
  note f1 = parsePrefixInstructions_frame [OF 1, of k]
  note f2 = parsePrefix_frame [OF 2, of k]
  note f3 = parseREX_frame [OF 3, of k]
  note f4 = parseOpecode_frame [OF 4, of k]
  note f5 = parseModRM_frame [OF 5, of k]
  note f6 = parseSIB_frame [OF 6, of k]
  note f7 = parseAddressOffset_frame [OF 7, of k]
  have a3: "modrmByte s3 = - 1 \<and> sibByte s3 = - 1 \<and> assemblyInstruction s3 = [] \<and>
            objectSource s3 = objectSource s \<and> assemblyOperands s3 = assemblyOperands s \<and>
            (lockstep k s \<longrightarrow> lockstep k s3)"
    using f1 f2 f3 assms(2-4) by simp
  have a4: "objectSource s4 = objectSource s \<and> curIdx s4 \<le> length (objectSource s) \<and>
            (0 \<le> modrmByte s4 \<longrightarrow> curIdx s4 < length (objectSource s)) \<and> sibByte s4 = - 1 \<and>
            assemblyInstruction s4 = [to_string_Mnemonic (mnemonic s4)] \<and>
            assemblyOperands s4 = assemblyOperands s \<and> (lockstep k s \<longrightarrow> lockstep k s4)"
    using f4 a3 by simp
  have a5: "objectSource s5 = objectSource s \<and> curIdx s5 \<le> length (objectSource s) \<and>
            sibByte s5 = - 1 \<and> assemblyInstruction s5 = [to_string_Mnemonic (mnemonic s5)] \<and>
            assemblyOperands s5 = assemblyOperands s \<and> (lockstep k s \<longrightarrow> lockstep k s5)"
    using f5 a4 by simp
  have a6: "objectSource s6 = objectSource s \<and> curIdx s6 \<le> length (objectSource s) \<and>
            assemblyInstruction s6 = [to_string_Mnemonic (mnemonic s6)] \<and>
            assemblyOperands s6 = assemblyOperands s \<and> (lockstep k s \<longrightarrow> lockstep k s6)"
    using f6 a5 by simp
  show ?thesis
    using f7 a6 by simp
qed

lemma decode_frame:
  assumes "decodeSingleInstruction t s startIdx = Inr ((a, len, m, txt), line, s')"
  shows "objectSource s' = objectSource s \<and> curIdx s' \<le> length (objectSource s) \<and>
         lockstep (size_t_of_int startIdx) s' \<and>
         a = startIdx \<and> len = int_of_size_t (instructionLen s') \<and>
         m = to_string_Mnemonic (mnemonic s') \<and>
         assemblyInstruction s' = [m, joinSpaced (assemblyOperands s')] \<and>
         txt = joinSpaced (assemblyInstruction s') \<and>
         length (assemblyOperands s') = length (operands s')"
proof -
  let ?s0 = "(init s)\<lparr>curIdx := size_t_of_int startIdx\<rparr>"
  from assms obtain s7 s8 where
    p: "parseAll t ?s0 = Inr s7" and d: "decodeOperands t s7 (operands s7) = Inr s8" and
    r: "s' = s8\<lparr>assemblyInstruction := assemblyInstruction s8 @ [joinSpaced (assemblyOperands s8)]\<rparr>"
       "a = startIdx" "len = int_of_size_t (instructionLen s8)"
       "m = to_string_Mnemonic (mnemonic s8)"
       "txt = joinSpaced (assemblyInstruction s8 @ [joinSpaced (assemblyOperands s8)])"
    by (auto simp: decodeSingleInstruction_def bind_Inr Let_def)
  have i: "modrmByte ?s0 = - 1" "sibByte ?s0 = - 1" "assemblyInstruction ?s0 = []"
    "assemblyOperands ?s0 = []" "objectSource ?s0 = objectSource s"
    "lockstep (size_t_of_int startIdx) ?s0"
    by (simp_all add: init_def lockstep_def)
  note f7 = parseAll_frame [OF p i(1-3), of "size_t_of_int startIdx"]
  note f8 = decodeOperands_frame [OF d, of "size_t_of_int startIdx"]
  show ?thesis
    using f7 f8 i r by (simp add: lockstep_def)
qed

subsection \<open>Number formatting\<close>


lemma to_string_Mnemonic_upper:
  "to_string_Mnemonic m \<noteq> [] \<and>
   set (to_string_Mnemonic m) \<subseteq> set ''ABCDEFGHIJKLMNOPQRSTUVWXYZ0123456789''"
  by (cases m) simp_all






lemma shifted_or: "push_bit 8 (a :: int) + uint (b :: 8 word) = or (push_bit 8 a) (uint b)"
proof -
  have "and (push_bit 8 a) (uint b) = 0"
    by (rule bit_eqI) (auto simp: bit_and_iff bit_push_bit_iff bit_uint_iff)
  then show ?thesis
    by (rule disjunctive_add_eq_or)
qed

lemma selectMnemonic_wildcard_only: "selectMnemonic t [- 1 \<mapsto> m] b = m"
  by (simp add: selectMnemonic_def subscript_def Let_def)

subsection \<open>Two decodes of the same bytes\<close>


































subsection \<open>The specification's ModR/M and SIB on truncated input and on displacements\<close>


lemma spec_displacements_exclusive:
  assumes "modrm s = spec_newModRM mb r" and "sib s = spec_newSIB sb (modByte (modrm s)) r'"
  shows "\<not> (wantsDisp8 s \<and> wantsDisp32 s)"
  using assms by (auto simp: wantsDisp8_def wantsDisp32_def spec_newModRM_def spec_newSIB_def Let_def)

lemma truncation_examples:
  "decoded spec_tables (newState [0x01]) 0 = Inl ExpectedModRM"
  "decoded spec_tables (newState [0x01, 0x04]) 0 = Inl ExpectedSIB"
  "decoded spec_tables (newState [0x8B, 0x48]) 0 = Inl (OutOfBoundsRead 2)"
  "decoded spec_tables (newState [0x8B, 0x88, 0x00, 0x01]) 0 = Inl (OutOfBoundsRead 4)"
  "decoded spec_tables (newState [0xB8, 0x44, 0x33]) 0 = Inl (OutOfBoundsRead 3)"
  by (simp_all add: run_defs spec_defs)

section \<open>The claims\<close>

subsection \<open>C1\<close>

text \<open>C1. Decoding \<open>B8 44 33 22 11\<close> at start offset 0 succeeds with length 5 and
  mnemonic MOV, and the text is \<open>" MOV  eax 0x11223344"\<close>: one space before the mnemonic,
  two before the first operand, the immediate read little-endian and printed as \<open>0x\<close>
  and eight hex digits. The rows of table.h are hypotheses: \<open>B8\<close> is a one-byte opcode
  whose row maps the wildcard to MOV, and its operand template is the opcode-embedded
  32-bit register 0, named \<open>eax\<close>, followed by \<open>imm32\<close>. The decoder may start from any
  state over that buffer.\<close>

theorem C1_mov_eax_imm32:
  assumes buf: "objectSource s = [0xB8, 0x44, 0x33, 0x22, 0x11]"
    and one: "0xB8 \<notin> TWO_BYTES_OPCODE_PREFIX t"
    and row: "OP_LOOKUP t (NONE, 0xB8) = Some [- 1 \<mapsto> MOV]"
    and ops: "OPERAND_LOOKUP t (NONE, MOV, 0xB8) = Some (OI, [''0''], [reg, imm32])"
    and r: "\<not> isA_REG t reg" "isRM t reg \<or> isREG t reg"
           "\<not> is8Bit t reg" "\<not> is16Bit t reg" "is32Bit t reg"
    and regs: "REGISTERS32 t \<noteq> []" "REGISTERS32 t ! 0 = ''eax''"
    and i: "\<not> isA_REG t imm32" "\<not> isRM t imm32" "\<not> isREG t imm32" "isIMM t imm32"
  shows "decoded t s 0 = Inr (0, 5, ''MOV'', '' MOV  eax 0x11223344'')"
  using assms
  by (simp add: decoded_def decodeSingleInstruction_def parseAll_def init_def
      parsePrefixInstructions_def parsePrefix_def parseREX_def parseOpecode_def eatOpcode_def
      lookupRow_def selectMnemonic_wildcard_only parseModRM_def parseSIB_def
      parseAddressOffset_def readDisp8_def readDisp32_def wantsDisp8_def wantsDisp32_def
      decodeOperand_def byteAt_def bytesFrom_def bind_def size_t_of_int_def int_of_size_t_def
      joinSpaced_def hexString_def hex2_def digit_def registerAt_def stoi_def isspace_def
      isdigit_def digitVal_def immSize_def PREFIX_INSTRUCTIONS_BYTES_SET_def Let_def)

theorem C1_mov_eax_imm32_witness:
  "decoded spec_tables (newState [0xB8, 0x44, 0x33, 0x22, 0x11]) 0
     = Inr (0, 5, ''MOV'', '' MOV  eax 0x11223344'')"
  by (rule C1_mov_eax_imm32) (simp_all add: spec_defs)

subsection \<open>C2\<close>

text \<open>C2, as claimed: the escape byte \<open>0F\<close> is not consumed by the prefix-scanning
  stage but by the opcode stage, which forms a 16-bit opcode from it. On \<open>0F 84 ...\<close>
  the code does otherwise: \<open>parsePrefixInstructions\<close> eats the \<open>0F\<close>, and the opcode that
  is then read is the single byte \<open>84\<close>.\<close>

theorem C2_counterexample:
  "parsePrefixInstructions (init (newState [0x0F, 0x84, 0x10, 0x00, 0x00, 0x00])) =
     Inr ((init (newState [0x0F, 0x84, 0x10, 0x00, 0x00, 0x00]))
            \<lparr>prefixInstructionByte := 0x0F, prefixOffset := 1, instructionLen := 1, curIdx := 1\<rparr>) \<and>
   parseUpToOpcode spec_tables (init (newState [0x0F, 0x84, 0x10, 0x00, 0x00, 0x00])) =
     Inr ((init (newState [0x0F, 0x84, 0x10, 0x00, 0x00, 0x00]))
            \<lparr>prefixInstructionByte := 0x0F, prefixOffset := 1, opcodeByte := 0x84,
             instructionLen := 2, curIdx := 2\<rparr>)"
  by (simp add: parseUpToOpcode_def run_defs spec_defs)

text \<open>C2, amended. \<open>0F\<close> is a member of \<open>PREFIX_INSTRUCTIONS_BYTES_SET\<close>: when it is the
  byte under the cursor, \<open>parsePrefixInstructions\<close> consumes it and records it in
  \<open>prefixInstructionByte\<close>, as it does for \<open>F0\<close>, \<open>F2\<close> and \<open>F3\<close>. The opcode stage,
  whenever the byte it reads as first opcode byte is \<open>0F\<close> (a member of
  \<open>TWO_BYTES_OPCODE_PREFIX\<close>) and another byte follows, consumes that second byte and
  forms \<open>(0x0F << 8) | second\<close> before the table lookup.\<close>

theorem C2_escape_byte:
  assumes "curIdx s < length (objectSource s)" and "objectSource s ! curIdx s = 0x0F"
  shows "parsePrefixInstructions s =
           Inr (s\<lparr>prefixInstructionByte := 0x0F, prefixOffset := 1,
                  instructionLen := instructionLen s + 1, curIdx := curIdx s + 1\<rparr>) \<and>
         (0x0F \<in> TWO_BYTES_OPCODE_PREFIX t \<and> curIdx s + 1 < length (objectSource s) \<longrightarrow>
          eatOpcode t s =
            Inr (s\<lparr>opcodeByte := or (push_bit 8 0x0F) (uint (objectSource s ! (curIdx s + 1))),
                   instructionLen := instructionLen s + 2, curIdx := curIdx s + 2\<rparr>))"
  using assms shifted_or [of "0x0F" "objectSource s ! Suc (curIdx s)"]
  by (simp add: parsePrefixInstructions_def eatOpcode_def byteAt_def bind_def
      PREFIX_INSTRUCTIONS_BYTES_SET_def Let_def del: push_bit_numeral)

theorem C2_escape_byte_witness:
  "parsePrefixInstructions (init (newState [0x0F, 0x84, 0x10, 0x00, 0x00, 0x00])) =
     Inr ((init (newState [0x0F, 0x84, 0x10, 0x00, 0x00, 0x00]))
            \<lparr>prefixInstructionByte := 0x0F, prefixOffset := 1, instructionLen := 1, curIdx := 1\<rparr>) \<and>
   eatOpcode spec_tables (init (newState [0x0F, 0x84, 0x10, 0x00, 0x00, 0x00])) =
     Inr ((init (newState [0x0F, 0x84, 0x10, 0x00, 0x00, 0x00]))
            \<lparr>opcodeByte := 0x0F84, instructionLen := 2, curIdx := 2\<rparr>)"
  using C2_escape_byte [of "init (newState [0x0F, 0x84, 0x10, 0x00, 0x00, 0x00])" spec_tables]
  by (simp add: init_def newState_def spec_tables_def)

subsection \<open>C3\<close>

text \<open>C3, as claimed: a key that misses is retried along the whole chain REXW, REX, NONE,
  so that a REXW lookup whose REX retry misses still succeeds when a NONE row exists. With
  a row for \<open>(NONE, 90)\<close> only, \<open>48 90\<close> is reported as an unknown opcode.\<close>

theorem C3_counterexample:
  "decoded spec_tables (newState [0x48, 0x90]) 0 = Inl (UnknownOpcode REXW 0x90) \<and>
   OP_LOOKUP spec_tables (REXW, 0x90) = None \<and> OP_LOOKUP spec_tables (REX, 0x90) = None \<and>
   OP_LOOKUP spec_tables (NONE, 0x90) \<noteq> None"
  by (simp add: run_defs spec_defs)

text \<open>C3, amended. A key that misses is retried once: a REXW key with REX, a REX key with
  NONE, and the prefix class becomes the one the row was found under; NONE and P66 keys are
  not retried. The lookup fails, with the unknown-opcode error for the original key,
  exactly when the key and its one retry miss; a REXW key whose REX retry misses fails
  whether or not a NONE row exists.\<close>

theorem C3_single_fallback:
  "(lookupRow t p opc = Inl e \<longleftrightarrow>
      e = UnknownOpcode p opc \<and> OP_LOOKUP t (p, opc) = None \<and>
      (p = REXW \<longrightarrow> OP_LOOKUP t (REX, opc) = None) \<and>
      (p = REX \<longrightarrow> OP_LOOKUP t (NONE, opc) = None)) \<and>
   (lookupRow t p opc = Inr (row, q) \<longleftrightarrow>
      OP_LOOKUP t (p, opc) = Some row \<and> q = p \<or>
      OP_LOOKUP t (p, opc) = None \<and> p = REXW \<and> OP_LOOKUP t (REX, opc) = Some row \<and> q = REX \<or>
      OP_LOOKUP t (p, opc) = None \<and> p = REX \<and> OP_LOOKUP t (NONE, opc) = Some row \<and> q = NONE)"
  by (auto simp: lookupRow_def)

theorem C3_single_fallback_witness:
  "lookupRow spec_tables REXW 0x90 = Inl (UnknownOpcode REXW 0x90) \<and>
   lookupRow spec_tables REX 0x90 = Inr ([- 1 \<mapsto> NOP], NONE)"
  using C3_single_fallback [of spec_tables REXW "0x90" "UnknownOpcode REXW 0x90"]
    C3_single_fallback [of spec_tables REX "0x90" _ "[- 1 \<mapsto> NOP]" NONE]
  by (simp add: spec_tables_def spec_OP_LOOKUP_def)

subsection \<open>C4\<close>

text \<open>C4. A buffer that ends in the middle of an instruction should make the decoder fail
  with an error that names the stage, and never read past the end. \<open>parseModRM\<close> and
  \<open>parseSIB\<close> do check; the other stages index \<open>objectSource\<close> unchecked. Whatever the
  tables, a lone \<open>66\<close>, a lone REX byte \<open>48\<close> and a lone \<open>F3\<close> are followed by a read
  at position 1 of a one-byte buffer, and the empty buffer is read at position 0.\<close>

theorem C4_truncated_reads:
  "decoded t (newState [0x66]) 0 = Inl (OutOfBoundsRead 1) \<and>
   decoded t (newState [0x48]) 0 = Inl (OutOfBoundsRead 1) \<and>
   decoded t (newState [0xF3]) 0 = Inl (OutOfBoundsRead 1) \<and>
   decoded t (newState []) 0 = Inl (OutOfBoundsRead 0)"
  by (simp add: run_defs newState_def)

subsection \<open>C5\<close>




subsection \<open>C6\<close>

text \<open>C6. After a successful decode the byte cursor stands at the start offset plus the
  length counter, inside the buffer, and the length returned is that counter: the bytes
  counted are the bytes consumed. The ModR/M byte that \<open>parseOpecode\<close> peeks moves
  neither the cursor nor the counter. (The counter is a \<open>size_t\<close> returned as an \<open>int\<close>;
  for a buffer below \<open>2^31\<close> bytes the conversion changes nothing.)\<close>

theorem C6_length_is_bytes_consumed:
  assumes "decodeSingleInstruction t s startIdx = Inr ((a, len, m, txt), line, s')"
  shows "curIdx s' = size_t_of_int startIdx + instructionLen s' \<and>
         curIdx s' \<le> length (objectSource s) \<and>
         len = int_of_size_t (instructionLen s') \<and>
         (length (objectSource s) < 2 ^ 31 \<longrightarrow> len = int (instructionLen s'))"
proof -
  note f = decode_frame [OF assms]
  have "length (objectSource s) < 2 ^ 31 \<Longrightarrow> int_of_size_t (instructionLen s') = int (instructionLen s')"
  proof -
    assume b: "length (objectSource s) < 2 ^ 31"
    have "instructionLen s' \<le> length (objectSource s)"
      using f by (simp add: lockstep_def)
    with b have "int (instructionLen s') < 2 ^ 31" by simp
    then show ?thesis
      by (simp add: int_of_size_t_def Let_def)
  qed
  with f show ?thesis by (simp add: lockstep_def)
qed

text \<open>\<open>B8 44 33 22 11\<close>: the byte \<open>44\<close> is peeked as a ModR/M byte (\<open>modrmByte\<close>
  holds it) and is then consumed as part of the immediate; cursor and counter are both 5.\<close>

theorem C6_length_is_bytes_consumed_witness:
  "decodeSingleInstruction spec_tables (newState [0xB8, 0x44, 0x33, 0x22, 0x11]) 0 =
     Inr ((0, 5, ''MOV'', '' MOV  eax 0x11223344''), ''0 5  MOV  eax 0x11223344'' @ [CHR 0x0A],
          (newState [0xB8, 0x44, 0x33, 0x22, 0x11])
            \<lparr>curIdx := 5, instructionLen := 5, opcodeByte := 0xB8, modrmByte := 0x44,
             opEnc := OI, remOps := [''0''], operands := [reg, imm32],
             assemblyInstruction := [''MOV'', '' eax 0x11223344''],
             assemblyOperands := [''eax'', ''0x11223344'']\<rparr>) \<and>
   (5 :: nat) = size_t_of_int 0 + 5 \<and> (5 :: nat) \<le> length [0xB8, 0x44, 0x33, 0x22, 0x11 :: 8 word] \<and>
   (5 :: int) = int_of_size_t 5 \<and>
   length [0xB8, 0x44, 0x33, 0x22, 0x11 :: 8 word] < 2 ^ 31 \<and> (5 :: int) = int (5 :: nat)"
proof -
  have h: "decodeSingleInstruction spec_tables (newState [0xB8, 0x44, 0x33, 0x22, 0x11]) 0 =
     Inr ((0, 5, ''MOV'', '' MOV  eax 0x11223344''), ''0 5  MOV  eax 0x11223344'' @ [CHR 0x0A],
          (newState [0xB8, 0x44, 0x33, 0x22, 0x11])
            \<lparr>curIdx := 5, instructionLen := 5, opcodeByte := 0xB8, modrmByte := 0x44,
             opEnc := OI, remOps := [''0''], operands := [reg, imm32],
             assemblyInstruction := [''MOV'', '' eax 0x11223344''],
             assemblyOperands := [''eax'', ''0x11223344'']\<rparr>)"
    by (simp add: run_defs spec_defs)
  have "(5 :: nat) = size_t_of_int 0 + 5 \<and> (5 :: nat) \<le> length [0xB8, 0x44, 0x33, 0x22, 0x11 :: 8 word] \<and>
   (5 :: int) = int_of_size_t 5 \<and>
   length [0xB8, 0x44, 0x33, 0x22, 0x11 :: 8 word] < 2 ^ 31 \<and> (5 :: int) = int (5 :: nat)"
    using C6_length_is_bytes_consumed [OF h] by (simp add: newState_def)
  with h show ?thesis by (rule conjI)
qed

subsection \<open>C7\<close>

text \<open>C7. ModR/M presence depends on the operand-encoding tag alone: \<open>hasModrm\<close> is
  true exactly for M, MI, M1, MR, RM and RMI, and false for I, D, O, NP and OI.\<close>

theorem C7_hasModrm_tags:
  "(hasModrm e = (e = M \<or> e = MI \<or> e = M1 \<or> e = MR \<or> e = RM \<or> e = RMI)) \<and>
   hasModrm I = False \<and> hasModrm D = False \<and> hasModrm O_enc = False \<and>
   hasModrm NP = False \<and> hasModrm OI = False"
  by (cases e) simp_all

subsection \<open>C8\<close>



subsection \<open>C9\<close>

text \<open>C9. The text of a successful decode is one space, the mnemonic, one more space, and
  then each operand after a space of its own. The mnemonic is the enumerator's name, not
  empty and made of capital letters and digits, so the text begins with exactly one
  space. With an empty operand list the text is the mnemonic between two spaces, as in
  \<open>" NOP "\<close> for the byte \<open>90\<close>.\<close>

theorem C9_text_shape:
  assumes "decodeSingleInstruction t s startIdx = Inr ((a, len, m, txt), line, s')"
  shows "m = to_string_Mnemonic (mnemonic s') \<and>
         txt = '' '' @ m @ '' '' @ joinSpaced (assemblyOperands s') \<and>
         m \<noteq> [] \<and> set m \<subseteq> set ''ABCDEFGHIJKLMNOPQRSTUVWXYZ0123456789'' \<and>
         (operands s' = [] \<longrightarrow> txt = '' '' @ m @ '' '')"
proof -
  note f = decode_frame [OF assms]
  have "operands s' = [] \<Longrightarrow> assemblyOperands s' = []"
    using f by simp
  with f to_string_Mnemonic_upper [of "mnemonic s'"] show ?thesis
    by (auto simp: joinSpaced_def)
qed

theorem C9_text_shape_witness:
  "decodeSingleInstruction spec_tables (newState [0x90]) 0 =
     Inr ((0, 1, ''NOP'', '' NOP ''), ''0 1  NOP '' @ [CHR 0x0A],
          (newState [0x90])
            \<lparr>curIdx := 1, instructionLen := 1, opcodeByte := 0x90, mnemonic := NOP,
             opEnc := NP, assemblyInstruction := [''NOP'', []]\<rparr>) \<and>
   ''NOP'' = to_string_Mnemonic NOP \<and>
   '' NOP '' = '' '' @ ''NOP'' @ '' '' @ joinSpaced [] \<and>
   ''NOP'' \<noteq> [] \<and> set ''NOP'' \<subseteq> set ''ABCDEFGHIJKLMNOPQRSTUVWXYZ0123456789'' \<and>
   operands ((newState [0x90])\<lparr>opEnc := NP\<rparr>) = [] \<and> '' NOP '' = '' '' @ ''NOP'' @ '' ''"
proof -
  have h: "decodeSingleInstruction spec_tables (newState [0x90]) 0 =
     Inr ((0, 1, ''NOP'', '' NOP ''), ''0 1  NOP '' @ [CHR 0x0A],
          (newState [0x90])
            \<lparr>curIdx := 1, instructionLen := 1, opcodeByte := 0x90, mnemonic := NOP,
             opEnc := NP, assemblyInstruction := [''NOP'', []]\<rparr>)"
    by (simp add: run_defs spec_defs)
  have "''NOP'' = to_string_Mnemonic NOP \<and>
   '' NOP '' = '' '' @ ''NOP'' @ '' '' @ joinSpaced [] \<and>
   ''NOP'' \<noteq> [] \<and> set ''NOP'' \<subseteq> set ''ABCDEFGHIJKLMNOPQRSTUVWXYZ0123456789'' \<and>
   operands ((newState [0x90])\<lparr>opEnc := NP\<rparr>) = [] \<and> '' NOP '' = '' '' @ ''NOP'' @ '' ''"
    using C9_text_shape [OF h] by (simp add: newState_def)
  with h show ?thesis by (rule conjI)
qed

subsection \<open>C10\<close>

text \<open>C10. When the row found for the opcode has no entry for the \<open>reg\<close> of the peeked
  ModR/M byte (if there is one) and none for the wildcard \<open>-1\<close>, \<open>parseOpecode\<close> raises
  nothing for the missing key: \<open>reg2mnem[-1]\<close> yields the value-initialised enumerator
  MOV, and the function goes on exactly as if the row had said MOV, to the operand lookup
  under \<open>(prefix, MOV, opcode)\<close>.\<close>

theorem C10_missing_wildcard:
  assumes eat: "eatOpcode t s = Inr s1"
    and row: "lookupRow t (prefix s1) (opcodeByte s1) = Inr (reg2mnem, p)"
    and wild: "reg2mnem (- 1) = None"
    and noreg: "curIdx s1 < length (objectSource s1) \<Longrightarrow>
                reg2mnem (getRegVal t (uint (objectSource s1 ! curIdx s1))) = None"
    and fresh: "modrmByte s = - 1"
  shows "parseOpecode t s =
           (case OPERAND_LOOKUP t (p, MOV, opcodeByte s1) of
              None \<Rightarrow> Inl (UnknownOperandForm p MOV (opcodeByte s1))
            | Some (enc, rem, ops) \<Rightarrow>
                Inr (s1\<lparr>prefix := p,
                       modrmByte := (if curIdx s1 < length (objectSource s1)
                                     then uint (objectSource s1 ! curIdx s1) else - 1),
                       mnemonic := MOV,
                       assemblyInstruction := assemblyInstruction s1 @ [''MOV''],
                       opEnc := enc, remOps := rem, operands := ops\<rparr>))"
proof -
  have m: "modrmByte s1 = - 1"
    using eat fresh by (auto simp: eatOpcode_def byteAt_def bind_def Let_def split: if_splits)
  show ?thesis
    using eat row wild noreg m
    by (auto simp: parseOpecode_def bind_def selectMnemonic_def subscript_def Let_def
        split: option.splits)
qed

text \<open>The scenario table has the row \<open>{0: ADD, 1: OR}\<close> for \<open>83\<close>. The ModR/M byte
  \<open>D0\<close> has \<open>reg = 2\<close>: the mnemonic becomes MOV, and the error that follows names it.\<close>

theorem C10_missing_wildcard_witness:
  "parseOpecode spec_tables (init (newState [0x83, 0xD0, 0x01])) =
     Inl (UnknownOperandForm NONE MOV 0x83)"
proof -
  let ?s = "init (newState [0x83, 0xD0, 0x01])"
  let ?s1 = "?s\<lparr>opcodeByte := 0x83, instructionLen := 1, curIdx := 1\<rparr>"
  have 1: "eatOpcode spec_tables ?s = Inr ?s1"
    by (simp add: run_defs spec_defs)
  have 2: "lookupRow spec_tables (prefix ?s1) (opcodeByte ?s1) = Inr ([0 \<mapsto> ADD, 1 \<mapsto> OR], NONE)"
    by (simp add: run_defs spec_defs)
  have 3: "[0 \<mapsto> ADD, 1 \<mapsto> OR] (- 1 :: int) = None" by simp
  have 4: "curIdx ?s1 < length (objectSource ?s1) \<Longrightarrow>
       [0 \<mapsto> ADD, 1 \<mapsto> OR] (getRegVal spec_tables (uint (objectSource ?s1 ! curIdx ?s1))) = None"
    by (simp add: run_defs spec_defs)
  have 5: "modrmByte ?s = - 1" by (simp add: init_def)
  show ?thesis
    using C10_missing_wildcard [OF 1 2 3 4 5]
    by (simp add: run_defs spec_defs)
qed

end
